theory Spec2Isabelle
  imports Main
begin

section \<open>NAT instance recovery function: the embedding\<close>

text \<open>
  The program is \<^verbatim>\<open>terraform/nat-recovery-lambda.py\<close>. Its inputs are the event (a
  JSON value), three environment variables, and the answers of the outside world: the
  EC2 and SNS clients and the clock. Its outputs are the returned dictionary
  \<^verbatim>\<open>{'statusCode': ..., 'body': ...}\<close> and the calls it issued to EC2 and SNS.
  Logging is left out: no \<^verbatim>\<open>logger\<close> call changes a result or a call.
\<close>

subsection \<open>Python values\<close>

text \<open>
  The event and the responses of the clients are JSON-like values. A dictionary is an
  association list read with \<open>map_of\<close> (keys are strings). Numbers are integers.
\<close>

datatype json =
    JNull
  | JBool bool
  | JNum int
  | JStr string
  | JList "json list"
  | JObj "(string \<times> json) list"

text \<open>The exceptions (all are subclasses of \<^verbatim>\<open>Exception\<close>). \<open>BotoError\<close> is any
  exception raised by a client call; it carries its message.\<close>

datatype py_exn =
    ValueError string
  | AttributeError
  | KeyError
  | IndexError
  | TypeError
  | BotoError string

text \<open>
  Text built by an f-string is kept as its parts: a literal, \<^verbatim>\<open>str(v)\<close> of a value,
  and \<^verbatim>\<open>str(e)\<close> of an exception. Equal parts give equal Python strings.
\<close>

datatype piece = Lit string | StrOf json | StrExn py_exn

type_synonym pytext = "piece list"

text \<open>The body of a result is a plain string or \<^verbatim>\<open>json.dumps\<close> of a string.\<close>

datatype body = Plain pytext | JsonDumps pytext

record result =
  statusCode :: int
  body :: body

text \<open>\<^verbatim>\<open>d.get(k, default)\<close>: only a dictionary has the method.\<close>

fun dict_get :: "json \<Rightarrow> string \<Rightarrow> json \<Rightarrow> py_exn + json" where
  "dict_get (JObj kvs) k d = Inr (case map_of kvs k of None \<Rightarrow> d | Some v \<Rightarrow> v)"
| "dict_get _ k d = Inl AttributeError"

text \<open>\<^verbatim>\<open>v['key']\<close> with a string key.\<close>

fun subscript_key :: "json \<Rightarrow> string \<Rightarrow> py_exn + json" where
  "subscript_key (JObj kvs) k = (case map_of kvs k of None \<Rightarrow> Inl KeyError | Some v \<Rightarrow> Inr v)"
| "subscript_key _ k = Inl TypeError"

text \<open>\<^verbatim>\<open>v[0]\<close>: the first element of a list or string; a dictionary with string keys
  has no key \<^verbatim>\<open>0\<close>.\<close>

fun subscript_0 :: "json \<Rightarrow> py_exn + json" where
  "subscript_0 (JList []) = Inl IndexError"
| "subscript_0 (JList (x # xs)) = Inr x"
| "subscript_0 (JStr []) = Inl IndexError"
| "subscript_0 (JStr (c # cs)) = Inr (JStr [c])"
| "subscript_0 (JObj kvs) = Inl KeyError"
| "subscript_0 _ = Inl TypeError"

text \<open>Truth value of a Python value, as \<^verbatim>\<open>not v\<close> reads it.\<close>

fun truthy :: "json \<Rightarrow> bool" where
  "truthy JNull = False"
| "truthy (JBool b) = b"
| "truthy (JNum n) = (n \<noteq> 0)"
| "truthy (JStr s) = (s \<noteq> [])"
| "truthy (JList xs) = (xs \<noteq> [])"
| "truthy (JObj kvs) = (kvs \<noteq> [])"

text \<open>
  \<^verbatim>\<open>str.lower()\<close> on the ASCII letters; other bytes stay as they are. A string is its
  UTF-8 bytes here. Python also lower-cases letters outside ASCII, but none of them
  becomes one of the letters of \<^verbatim>\<open>health\<close> or \<^verbatim>\<open>status\<close>, the only strings looked for
  in a lower-cased name.
\<close>

definition lower_char :: "char \<Rightarrow> char" where
  "lower_char c =
     (if (65::nat) \<le> of_char c \<and> of_char c \<le> (90::nat)
      then char_of (of_char c + (32::nat)) else c)"

definition lower :: "string \<Rightarrow> string" where
  "lower s = map lower_char s"

text \<open>\<^verbatim>\<open>v.lower()\<close> on a value: only a string has the method.\<close>

fun py_lower :: "json \<Rightarrow> py_exn + string" where
  "py_lower (JStr s) = Inr (lower s)"
| "py_lower _ = Inl AttributeError"

text \<open>\<^verbatim>\<open>needle in hay\<close> for strings: \<open>needle\<close> occurs as a substring.\<close>

fun substring_in :: "string \<Rightarrow> string \<Rightarrow> bool" where
  "substring_in needle [] = (needle = [])"
| "substring_in needle (c # cs) =
     (take (length needle) (c # cs) = needle \<or> substring_in needle cs)"

text \<open>Sequencing of steps that may raise: the first exception ends the sequence.\<close>

definition exn_bind :: "py_exn + 'a \<Rightarrow> ('a \<Rightarrow> py_exn + 'b) \<Rightarrow> py_exn + 'b" where
  "exn_bind r f = (case r of Inl e \<Rightarrow> Inl e | Inr x \<Rightarrow> f x)"

subsection \<open>The outside world and the calls issued\<close>

datatype call =
    DescribeInstances "string list"
  | StartInstances "string list"
  | DescribeInstanceStatus "string list"
  | RebootInstances "string list"
  | Publish "string option" pytext pytext

text \<open>
  The world answers each call with a response or an exception, and may take into
  account the calls already issued in this invocation. \<open>utcnow\<close> is
  \<^verbatim>\<open>datetime.utcnow().isoformat()\<close>.
\<close>

record world =
  aws :: "call list \<Rightarrow> call \<Rightarrow> py_exn + json"
  utcnow :: string

text \<open>A computation takes the calls issued so far and returns a value or an
  exception, with the calls issued by then.\<close>

type_synonym 'a io = "call list \<Rightarrow> (py_exn + 'a) \<times> call list"

definition io_return :: "'a \<Rightarrow> 'a io" where
  "io_return x t = (Inr x, t)"

definition io_raise :: "py_exn \<Rightarrow> 'a io" where
  "io_raise e t = (Inl e, t)"

definition io_lift :: "py_exn + 'a \<Rightarrow> 'a io" where
  "io_lift r t = (r, t)"

definition io_bind :: "'a io \<Rightarrow> ('a \<Rightarrow> 'b io) \<Rightarrow> 'b io" where
  "io_bind m f t =
     (case m t of
        (Inl e, t') \<Rightarrow> (Inl e, t')
      | (Inr x, t') \<Rightarrow> f x t')"

text \<open>\<^verbatim>\<open>try: m except Exception as e: h(e)\<close>\<close>

definition io_try :: "'a io \<Rightarrow> (py_exn \<Rightarrow> 'a io) \<Rightarrow> 'a io" where
  "io_try m h t =
     (case m t of
        (Inl e, t') \<Rightarrow> h e t'
      | (Inr x, t') \<Rightarrow> (Inr x, t'))"

definition aws_call :: "world \<Rightarrow> call \<Rightarrow> json io" where
  "aws_call w c t = (aws w t c, t @ [c])"

definition nl :: string where
  "nl = [CHR 0x0A]"

subsection \<open>send_alert\<close>

definition send_alert :: "world \<Rightarrow> string option \<Rightarrow> pytext \<Rightarrow> pytext \<Rightarrow> unit io" where
  "send_alert w sns_topic_arn subject message =
     io_try
       (io_bind (aws_call w (Publish sns_topic_arn subject message)) (\<lambda>response.
        io_bind (io_lift (subscript_key response ''MessageId'')) (\<lambda>message_id.
        io_return ())))
       (\<lambda>e. io_return ())"

subsection \<open>handle_stopped_instance\<close>

definition restarted_message :: "world \<Rightarrow> string \<Rightarrow> pytext" where
  "restarted_message w instance_id =
     [Lit nl,
      Lit ''NAT Instance Recovery Action'', Lit nl,
      Lit nl,
      Lit ''Instance ID: '', Lit instance_id, Lit nl,
      Lit ''Action: Started stopped instance'', Lit nl,
      Lit ''Time: '', Lit (utcnow w), Lit nl,
      Lit ''Status: Success'', Lit nl,
      Lit nl,
      Lit ''The NAT instance was automatically restarted to maintain network connectivity.'', Lit nl,
      Lit ''Please monitor the instance and verify connectivity from private subnets.'', Lit nl]"

text \<open>
  Lines 103 and 104:
  \<^verbatim>\<open>instance = response['Reservations'][0]['Instances'][0]\<close>,
  \<^verbatim>\<open>current_state = instance['State']['Name']\<close>.
\<close>

definition current_state_of :: "json \<Rightarrow> py_exn + json" where
  "current_state_of response =
     exn_bind (subscript_key response ''Reservations'') (\<lambda>reservations.
     exn_bind (subscript_0 reservations) (\<lambda>reservation.
     exn_bind (subscript_key reservation ''Instances'') (\<lambda>instances.
     exn_bind (subscript_0 instances) (\<lambda>instance.
     exn_bind (subscript_key instance ''State'') (\<lambda>state.
     subscript_key state ''Name'')))))"

definition handle_stopped_instance :: "world \<Rightarrow> string \<Rightarrow> string \<Rightarrow> result io" where
  "handle_stopped_instance w instance_id sns_topic_arn =
     io_try
       (io_bind (aws_call w (DescribeInstances [instance_id])) (\<lambda>response.
        io_bind (io_lift (current_state_of response)) (\<lambda>current_state.
        if current_state = JStr ''stopped'' then
          io_bind (aws_call w (StartInstances [instance_id])) (\<lambda>start_response.
          io_bind (send_alert w (Some sns_topic_arn)
                     [Lit ''NAT Instance Automatically Restarted'']
                     (restarted_message w instance_id)) (\<lambda>_.
          io_return \<lparr>statusCode = 200,
                     body = JsonDumps [Lit ''Successfully started instance '', Lit instance_id]\<rparr>))
        else
          io_return \<lparr>statusCode = 400,
                     body = JsonDumps [Lit ''Instance in '', StrOf current_state, Lit '' state'']\<rparr>)))
       (\<lambda>e.
        io_bind (send_alert w (Some sns_topic_arn)
                   [Lit ''NAT Recovery Failed'']
                   [Lit ''Failed to restart NAT instance '', Lit instance_id, Lit '': '', StrExn e]) (\<lambda>_.
        io_raise e))"

subsection \<open>handle_terminated_instance\<close>

definition terminated_message :: "world \<Rightarrow> string \<Rightarrow> pytext" where
  "terminated_message w instance_id =
     [Lit nl,
      Lit ''CRITICAL: NAT Instance Terminated'', Lit nl,
      Lit nl,
      Lit ''Instance ID: '', Lit instance_id, Lit nl,
      Lit ''Action: Instance terminated'', Lit nl,
      Lit ''Time: '', Lit (utcnow w), Lit nl,
      Lit ''Impact: Private subnet connectivity lost'', Lit nl,
      Lit nl,
      Lit ''IMMEDIATE ACTION REQUIRED:'', Lit nl,
      Lit ''1. Launch new NAT instance or enable Auto Scaling Group'', Lit nl,
      Lit ''2. Update route tables to point to new instance'', Lit nl,
      Lit ''3. Verify connectivity from private subnets'', Lit nl,
      Lit nl,
      Lit ''This is a critical infrastructure failure requiring immediate attention.'', Lit nl]"

definition handle_terminated_instance :: "world \<Rightarrow> string \<Rightarrow> string \<Rightarrow> result io" where
  "handle_terminated_instance w instance_id sns_topic_arn =
     io_bind (send_alert w (Some sns_topic_arn)
                [Lit ''CRITICAL: NAT Instance Terminated'']
                (terminated_message w instance_id)) (\<lambda>_.
     io_return \<lparr>statusCode = 200,
                body = JsonDumps [Lit ''Critical alert sent for terminated instance'']\<rparr>)"

subsection \<open>handle_instance_state_change\<close>

text \<open>Lines 75 to 77: the instance id and the state of the event's detail.\<close>

definition state_change_fields :: "json \<Rightarrow> py_exn + json \<times> json" where
  "state_change_fields event =
     exn_bind (dict_get event ''detail'' (JObj [])) (\<lambda>detail.
     exn_bind (dict_get detail ''instance-id'' JNull) (\<lambda>event_instance_id.
     exn_bind (dict_get detail ''state'' JNull) (\<lambda>state.
     Inr (event_instance_id, state))))"

definition handle_instance_state_change :: "world \<Rightarrow> json \<Rightarrow> string \<Rightarrow> string \<Rightarrow> result io" where
  "handle_instance_state_change w event instance_id sns_topic_arn =
     io_bind (io_lift (state_change_fields event)) (\<lambda>(event_instance_id, state).
     if event_instance_id \<noteq> JStr instance_id then
       io_return \<lparr>statusCode = 200, body = Plain [Lit ''Not our instance'']\<rparr>
     else if state = JStr ''stopped'' \<or> state = JStr ''stopping'' then
       handle_stopped_instance w instance_id sns_topic_arn
     else if state = JStr ''terminated'' \<or> state = JStr ''terminating'' then
       handle_terminated_instance w instance_id sns_topic_arn
     else
       io_return \<lparr>statusCode = 200, body = Plain [Lit ''No action needed'']\<rparr>)"

subsection \<open>handle_health_check_failure\<close>

definition rebooted_message :: "world \<Rightarrow> string \<Rightarrow> json \<Rightarrow> json \<Rightarrow> pytext" where
  "rebooted_message w instance_id alarm_name reason =
     [Lit nl,
      Lit ''NAT Instance Recovery Action'', Lit nl,
      Lit nl,
      Lit ''Instance ID: '', Lit instance_id, Lit nl,
      Lit ''Action: Rebooted due to health check failure'', Lit nl,
      Lit ''Alarm: '', StrOf alarm_name, Lit nl,
      Lit ''Reason: '', StrOf reason, Lit nl,
      Lit ''Time: '', Lit (utcnow w), Lit nl,
      Lit nl,
      Lit ''The NAT instance was automatically rebooted to recover from health check failures.'', Lit nl,
      Lit ''Please monitor the instance status and verify connectivity.'', Lit nl]"

text \<open>
  Lines 220 to 222, on \<^verbatim>\<open>response['InstanceStatuses']\<close>:
  \<^verbatim>\<open>status = ...[0]\<close>, \<^verbatim>\<open>status['InstanceStatus']['Status']\<close> and
  \<^verbatim>\<open>status['SystemStatus']['Status']\<close>.
\<close>

definition status_checks_of :: "json \<Rightarrow> py_exn + json \<times> json" where
  "status_checks_of statuses =
     exn_bind (subscript_0 statuses) (\<lambda>status.
     exn_bind (subscript_key status ''InstanceStatus'') (\<lambda>ist.
     exn_bind (subscript_key ist ''Status'') (\<lambda>instance_status.
     exn_bind (subscript_key status ''SystemStatus'') (\<lambda>sst.
     exn_bind (subscript_key sst ''Status'') (\<lambda>system_status.
     Inr (instance_status, system_status))))))"

definition handle_health_check_failure ::
  "world \<Rightarrow> string \<Rightarrow> json \<Rightarrow> json \<Rightarrow> string \<Rightarrow> result io" where
  "handle_health_check_failure w instance_id alarm_name reason sns_topic_arn =
     io_try
       (io_bind (aws_call w (DescribeInstanceStatus [instance_id])) (\<lambda>response.
        io_bind (io_lift (subscript_key response ''InstanceStatuses'')) (\<lambda>statuses.
        if \<not> truthy statuses then
          io_return \<lparr>statusCode = 404, body = Plain [Lit ''Instance status not found'']\<rparr>
        else
          io_bind (io_lift (status_checks_of statuses)) (\<lambda>(instance_status, system_status).
          if instance_status \<noteq> JStr ''ok'' \<or> system_status \<noteq> JStr ''ok'' then
            io_bind (aws_call w (RebootInstances [instance_id])) (\<lambda>reboot_response.
            io_bind (send_alert w (Some sns_topic_arn)
                       [Lit ''NAT Instance Automatically Rebooted'']
                       (rebooted_message w instance_id alarm_name reason)) (\<lambda>_.
            io_return \<lparr>statusCode = 200,
                       body = JsonDumps [Lit ''Successfully rebooted instance '', Lit instance_id]\<rparr>))
          else
            io_return \<lparr>statusCode = 200,
                       body = JsonDumps [Lit ''Status checks OK, no action needed'']\<rparr>))))
       (\<lambda>e.
        io_bind (send_alert w (Some sns_topic_arn)
                   [Lit ''NAT Recovery Failed'']
                   [Lit ''Failed to handle health check failure for '', Lit instance_id,
                    Lit '': '', StrExn e]) (\<lambda>_.
        io_raise e))"

subsection \<open>handle_cloudwatch_alarm\<close>

definition alarm_message :: "world \<Rightarrow> string \<Rightarrow> json \<Rightarrow> json \<Rightarrow> json \<Rightarrow> pytext" where
  "alarm_message w instance_id alarm_name state_value state_reason =
     [Lit nl,
      Lit ''NAT Instance Alert'', Lit nl,
      Lit nl,
      Lit ''Alarm: '', StrOf alarm_name, Lit nl,
      Lit ''State: '', StrOf state_value, Lit nl,
      Lit ''Reason: '', StrOf state_reason, Lit nl,
      Lit ''Instance: '', Lit instance_id, Lit nl,
      Lit ''Time: '', Lit (utcnow w), Lit nl,
      Lit nl,
      Lit ''Please investigate the issue and take appropriate action if needed.'', Lit nl]"

text \<open>Lines 175 to 179: the alarm name, the state value and the state reason.\<close>

definition alarm_fields :: "json \<Rightarrow> py_exn + json \<times> json \<times> json" where
  "alarm_fields event =
     exn_bind (dict_get event ''detail'' (JObj [])) (\<lambda>detail.
     exn_bind (dict_get detail ''alarmName'' (JStr ''Unknown'')) (\<lambda>alarm_name.
     exn_bind (dict_get detail ''newState'' (JObj [])) (\<lambda>new_state.
     exn_bind (dict_get new_state ''value'' (JStr ''Unknown'')) (\<lambda>state_value.
     exn_bind (dict_get new_state ''reason'' (JStr ''No reason provided'')) (\<lambda>state_reason.
     Inr (alarm_name, state_value, state_reason))))))"

definition handle_cloudwatch_alarm :: "world \<Rightarrow> json \<Rightarrow> string \<Rightarrow> string \<Rightarrow> result io" where
  "handle_cloudwatch_alarm w event instance_id sns_topic_arn =
     io_bind (io_lift (alarm_fields event)) (\<lambda>(alarm_name, state_value, state_reason).
     if state_value = JStr ''ALARM'' then
       io_bind (io_lift (py_lower alarm_name)) (\<lambda>lowered.
       if substring_in ''health'' lowered then
         handle_health_check_failure w instance_id alarm_name state_reason sns_topic_arn
       else
         io_bind (io_lift (py_lower alarm_name)) (\<lambda>lowered2.
         if substring_in ''status'' lowered2 then
           handle_health_check_failure w instance_id alarm_name state_reason sns_topic_arn
         else
           io_bind (send_alert w (Some sns_topic_arn)
                      [Lit ''NAT Instance Alert: '', StrOf alarm_name]
                      (alarm_message w instance_id alarm_name state_value state_reason)) (\<lambda>_.
           io_return \<lparr>statusCode = 200,
                      body = JsonDumps [Lit ''Processed alarm: '', StrOf alarm_name]\<rparr>)))
     else
       io_return \<lparr>statusCode = 200,
                  body = JsonDumps [Lit ''Processed alarm: '', StrOf alarm_name]\<rparr>)"

subsection \<open>handler\<close>

record env =
  INSTANCE_ID :: "string option"
  ROUTE_TABLE_ID :: "string option"
  SNS_TOPIC_ARN :: "string option"

text \<open>\<^verbatim>\<open>all([instance_id, route_table_id, sns_topic_arn])\<close>: each is set and is not the
  empty string.\<close>

definition is_set :: "string option \<Rightarrow> bool" where
  "is_set v = (case v of None \<Rightarrow> False | Some s \<Rightarrow> s \<noteq> [])"

text \<open>Lines 63 to 69: the \<^verbatim>\<open>except Exception as e\<close> clause of the handler.\<close>

definition handler_except :: "world \<Rightarrow> string option \<Rightarrow> py_exn \<Rightarrow> result io" where
  "handler_except w sns_topic_arn e =
     io_bind (send_alert w sns_topic_arn
                [Lit ''NAT Recovery Error'']
                [Lit ''Error in recovery function: '', StrExn e]) (\<lambda>_.
     io_return \<lparr>statusCode = 500, body = JsonDumps [Lit ''Error: '', StrExn e]\<rparr>)"

text \<open>
  Lines 47 to 61: the event is parsed and dispatched. Here \<^verbatim>\<open>instance_id\<close> and
  \<^verbatim>\<open>sns_topic_arn\<close> are strings, since the check of line 44 has passed.
\<close>

definition route :: "world \<Rightarrow> json \<Rightarrow> string \<Rightarrow> string \<Rightarrow> result io" where
  "route w event instance_id sns_topic_arn =
     io_bind (io_lift (dict_get event ''source'' JNull)) (\<lambda>event_source.
     io_bind (io_lift (dict_get event ''detail-type'' JNull)) (\<lambda>detail_type.
     io_bind (io_lift (dict_get event ''detail'' (JObj []))) (\<lambda>detail.
     if event_source = JStr ''aws.ec2''
        \<and> detail_type = JStr ''EC2 Instance State-change Notification'' then
       handle_instance_state_change w event instance_id sns_topic_arn
     else if event_source = JStr ''aws.cloudwatch'' then
       handle_cloudwatch_alarm w event instance_id sns_topic_arn
     else
       io_return \<lparr>statusCode = 200, body = JsonDumps [Lit ''Event type not handled'']\<rparr>)))"

text \<open>
  The handler: lines 40 to 45 read the environment and check it, a value that is
  \<^verbatim>\<open>None\<close> or empty failing the check; any exception ends in the clause of line 63.
  The log line before them serialises the event, which is a JSON value, and so does
  not raise.
\<close>

definition handler :: "world \<Rightarrow> env \<Rightarrow> json \<Rightarrow> result io" where
  "handler w ev event =
     (let instance_id = INSTANCE_ID ev;
          route_table_id = ROUTE_TABLE_ID ev;
          sns_topic_arn = SNS_TOPIC_ARN ev
      in
      io_try
        (if \<not> (is_set instance_id \<and> is_set route_table_id \<and> is_set sns_topic_arn) then
           io_raise (ValueError ''Missing required environment variables'')
         else
           (case (instance_id, sns_topic_arn) of
              (Some iid, Some arn) \<Rightarrow> route w event iid arn
            | _ \<Rightarrow> io_raise (ValueError ''Missing required environment variables'')))
        (handler_except w sns_topic_arn))"

text \<open>One invocation: the handler starts with no call issued.\<close>

definition invoke :: "world \<Rightarrow> env \<Rightarrow> json \<Rightarrow> (py_exn + result) \<times> call list" where
  "invoke w ev event = handler w ev event []"

subsection \<open>Counting the calls of an invocation\<close>


fun is_start :: "call \<Rightarrow> bool" where
  "is_start (StartInstances ids) = True"
| "is_start _ = False"

fun is_reboot :: "call \<Rightarrow> bool" where
  "is_reboot (RebootInstances ids) = True"
| "is_reboot _ = False"

fun is_publish :: "call \<Rightarrow> bool" where
  "is_publish (Publish arn subject message) = True"
| "is_publish _ = False"

definition count_calls :: "(call \<Rightarrow> bool) \<Rightarrow> call list \<Rightarrow> nat" where
  "count_calls p t = length (filter p t)"

text \<open>
  The exceptions of the start and reboot calls that failed, read off the calls of an
  invocation: each call is put to the world again with the calls issued before it.
\<close>

fun failed_actions :: "world \<Rightarrow> call list \<Rightarrow> call list \<Rightarrow> py_exn list" where
  "failed_actions w h [] = []"
| "failed_actions w h (c # cs) =
     (if is_start c \<or> is_reboot c
      then (case aws w h c of Inl e \<Rightarrow> [e] | Inr r \<Rightarrow> [])
      else []) @ failed_actions w (h @ [c]) cs"

subsection \<open>Kinds of configuration and of events\<close>

text \<open>The three environment variables are set, with this instance id and this topic.\<close>

definition config_ok :: "env \<Rightarrow> string \<Rightarrow> string \<Rightarrow> bool" where
  "config_ok ev iid arn =
     (INSTANCE_ID ev = Some iid \<and> iid \<noteq> [] \<and> is_set (ROUTE_TABLE_ID ev)
      \<and> SNS_TOPIC_ARN ev = Some arn \<and> arn \<noteq> [])"

text \<open>The event is a dictionary with the source and detail type of line 52.\<close>

definition is_state_change :: "json \<Rightarrow> bool" where
  "is_state_change event =
     (dict_get event ''source'' JNull = Inr (JStr ''aws.ec2'')
      \<and> dict_get event ''detail-type'' JNull
          = Inr (JStr ''EC2 Instance State-change Notification''))"

text \<open>The event is a dictionary with the source of line 54.\<close>

definition is_alarm_event :: "json \<Rightarrow> bool" where
  "is_alarm_event event = (dict_get event ''source'' JNull = Inr (JStr ''aws.cloudwatch''))"

subsection \<open>The alerts of the failure paths\<close>

text \<open>The call of lines 138 and 139.\<close>

definition restart_failed_alert :: "string \<Rightarrow> string \<Rightarrow> py_exn \<Rightarrow> call" where
  "restart_failed_alert iid arn e =
     Publish (Some arn) [Lit ''NAT Recovery Failed'']
       [Lit ''Failed to restart NAT instance '', Lit iid, Lit '': '', StrExn e]"

text \<open>The call of lines 260 and 261.\<close>

definition health_failed_alert :: "string \<Rightarrow> string \<Rightarrow> py_exn \<Rightarrow> call" where
  "health_failed_alert iid arn e =
     Publish (Some arn) [Lit ''NAT Recovery Failed'']
       [Lit ''Failed to handle health check failure for '', Lit iid, Lit '': '', StrExn e]"

text \<open>The call of line 65.\<close>

definition error_alert :: "string option \<Rightarrow> py_exn \<Rightarrow> call" where
  "error_alert arn e =
     Publish arn [Lit ''NAT Recovery Error''] [Lit ''Error in recovery function: '', StrExn e]"

subsection \<open>Concrete inputs\<close>

text \<open>The environment and the event of the test at the end of the source file.\<close>

definition test_instance :: string where
  "test_instance = ''i-1234567890abcdef0''"

definition test_topic :: string where
  "test_topic = ''arn:aws:sns:us-east-1:123456789012:test-topic''"

definition test_env :: env where
  "test_env = \<lparr>INSTANCE_ID = Some test_instance,
               ROUTE_TABLE_ID = Some ''rtb-1234567890abcdef0'',
               SNS_TOPIC_ARN = Some test_topic\<rparr>"


definition state_change_event :: "string \<Rightarrow> string \<Rightarrow> json" where
  "state_change_event iid state =
     JObj [(''source'', JStr ''aws.ec2''),
           (''detail-type'', JStr ''EC2 Instance State-change Notification''),
           (''detail'', JObj [(''instance-id'', JStr iid), (''state'', JStr state)])]"




text \<open>Responses of \<^verbatim>\<open>describe_instances\<close> and \<^verbatim>\<open>describe_instance_status\<close>.\<close>

definition describe_response :: "string \<Rightarrow> json" where
  "describe_response state =
     JObj [(''Reservations'',
            JList [JObj [(''Instances'',
                          JList [JObj [(''State'', JObj [(''Name'', JStr state)])]])]])]"






definition no_status_response :: json where
  "no_status_response = JObj [(''InstanceStatuses'', JList [])]"

text \<open>
  A world that answers the two probes with the given responses, in which the start and
  reboot calls succeed or fail, and the publish calls succeed or fail.
\<close>

definition world_of :: "json \<Rightarrow> json \<Rightarrow> bool \<Rightarrow> bool \<Rightarrow> world" where
  "world_of described status actions_ok publish_ok =
     \<lparr>aws = (\<lambda>h c.
         case c of
           DescribeInstances ids \<Rightarrow> Inr described
         | DescribeInstanceStatus ids \<Rightarrow> Inr status
         | StartInstances ids \<Rightarrow>
             if actions_ok then Inr (JObj []) else Inl (BotoError ''start refused'')
         | RebootInstances ids \<Rightarrow>
             if actions_ok then Inr (JObj []) else Inl (BotoError ''reboot refused'')
         | Publish arn subject message \<Rightarrow>
             if publish_ok then Inr (JObj [(''MessageId'', JStr ''m-1'')])
             else Inl (BotoError ''publish refused'')),
      utcnow = ''2024-01-01T00:00:00''\<rparr>"

section \<open>What each function computes\<close>

lemmas io_defs = io_return_def io_raise_def io_lift_def io_bind_def io_try_def aws_call_def

lemma substring_in_iff: "substring_in n h \<longleftrightarrow> (\<exists>p s. h = p @ n @ s)"
proof (induction h)
  case Nil
  then show ?case by auto
next
  case (Cons c cs)
  have "take (length n) (c # cs) = n \<longleftrightarrow> (\<exists>s. c # cs = n @ s)"
    by (metis append_eq_conv_conj append_take_drop_id)
  moreover have "(\<exists>p s. c # cs = p @ n @ s) \<longleftrightarrow> (\<exists>s. c # cs = n @ s) \<or> (\<exists>p s. cs = p @ n @ s)"
  proof
    assume "\<exists>p s. c # cs = p @ n @ s"
    then obtain p s where ps: "c # cs = p @ n @ s" by blast
    show "(\<exists>s. c # cs = n @ s) \<or> (\<exists>p s. cs = p @ n @ s)"
    proof (cases p)
      case Nil
      with ps show ?thesis by auto
    next
      case (Cons a p')
      with ps have "cs = p' @ n @ s" by simp
      then show ?thesis by blast
    qed
  next
    assume "(\<exists>s. c # cs = n @ s) \<or> (\<exists>p s. cs = p @ n @ s)"
    then show "\<exists>p s. c # cs = p @ n @ s"
    proof
      assume "\<exists>s. c # cs = n @ s"
      then obtain s where "c # cs = [] @ n @ s" by auto
      then show ?thesis by blast
    next
      assume "\<exists>p s. cs = p @ n @ s"
      then obtain p s where "cs = p @ n @ s" by blast
      then have "c # cs = (c # p) @ n @ s" by simp
      then show ?thesis by blast
    qed
  qed
  ultimately show ?case using Cons.IH by simp
qed

lemma dict_get_obj: "dict_get d k x = Inr v \<Longrightarrow> \<exists>kvs. d = JObj kvs"
  by (cases d) simp_all

lemma send_alert_run:
  "send_alert w arn subject message t = (Inr (), t @ [Publish arn subject message])"
  by (simp add: send_alert_def io_defs split: sum.splits prod.splits)

lemma handler_except_run:
  "handler_except w arn e t =
     (Inr \<lparr>statusCode = 500, body = JsonDumps [Lit ''Error: '', StrExn e]\<rparr>,
      t @ [error_alert arn e])"
  by (simp add: handler_except_def error_alert_def send_alert_run io_defs)

lemma stopped_run:
  "handle_stopped_instance w iid arn [] =
     (case aws w [] (DescribeInstances [iid]) of
        Inl e \<Rightarrow> (Inl e, [DescribeInstances [iid], restart_failed_alert iid arn e])
      | Inr response \<Rightarrow>
          (case current_state_of response of
             Inl e \<Rightarrow> (Inl e, [DescribeInstances [iid], restart_failed_alert iid arn e])
           | Inr current_state \<Rightarrow>
               if current_state = JStr ''stopped'' then
                 (case aws w [DescribeInstances [iid]] (StartInstances [iid]) of
                    Inl e \<Rightarrow> (Inl e, [DescribeInstances [iid], StartInstances [iid],
                                       restart_failed_alert iid arn e])
                  | Inr start_response \<Rightarrow>
                      (Inr \<lparr>statusCode = 200,
                            body = JsonDumps [Lit ''Successfully started instance '', Lit iid]\<rparr>,
                       [DescribeInstances [iid], StartInstances [iid],
                        Publish (Some arn) [Lit ''NAT Instance Automatically Restarted'']
                          (restarted_message w iid)]))
               else
                 (Inr \<lparr>statusCode = 400,
                       body = JsonDumps [Lit ''Instance in '', StrOf current_state, Lit '' state'']\<rparr>,
                  [DescribeInstances [iid]])))"
  by (simp add: handle_stopped_instance_def restart_failed_alert_def send_alert_run io_defs
           split: sum.splits)

lemma health_run:
  "handle_health_check_failure w iid alarm_name reason arn [] =
     (case aws w [] (DescribeInstanceStatus [iid]) of
        Inl e \<Rightarrow> (Inl e, [DescribeInstanceStatus [iid], health_failed_alert iid arn e])
      | Inr response \<Rightarrow>
          (case subscript_key response ''InstanceStatuses'' of
             Inl e \<Rightarrow> (Inl e, [DescribeInstanceStatus [iid], health_failed_alert iid arn e])
           | Inr statuses \<Rightarrow>
               if \<not> truthy statuses then
                 (Inr \<lparr>statusCode = 404, body = Plain [Lit ''Instance status not found'']\<rparr>,
                  [DescribeInstanceStatus [iid]])
               else
                 (case status_checks_of statuses of
                    Inl e \<Rightarrow> (Inl e, [DescribeInstanceStatus [iid], health_failed_alert iid arn e])
                  | Inr (instance_status, system_status) \<Rightarrow>
                      if instance_status \<noteq> JStr ''ok'' \<or> system_status \<noteq> JStr ''ok'' then
                        (case aws w [DescribeInstanceStatus [iid]] (RebootInstances [iid]) of
                           Inl e \<Rightarrow> (Inl e, [DescribeInstanceStatus [iid], RebootInstances [iid],
                                              health_failed_alert iid arn e])
                         | Inr reboot_response \<Rightarrow>
                             (Inr \<lparr>statusCode = 200,
                                   body = JsonDumps [Lit ''Successfully rebooted instance '', Lit iid]\<rparr>,
                              [DescribeInstanceStatus [iid], RebootInstances [iid],
                               Publish (Some arn) [Lit ''NAT Instance Automatically Rebooted'']
                                 (rebooted_message w iid alarm_name reason)]))
                      else
                        (Inr \<lparr>statusCode = 200,
                              body = JsonDumps [Lit ''Status checks OK, no action needed'']\<rparr>,
                         [DescribeInstanceStatus [iid]]))))"
  by (simp add: handle_health_check_failure_def health_failed_alert_def send_alert_run io_defs
           split: sum.splits prod.splits)

lemma terminated_run:
  "handle_terminated_instance w iid arn [] =
     (Inr \<lparr>statusCode = 200,
           body = JsonDumps [Lit ''Critical alert sent for terminated instance'']\<rparr>,
      [Publish (Some arn) [Lit ''CRITICAL: NAT Instance Terminated''] (terminated_message w iid)])"
  by (simp add: handle_terminated_instance_def send_alert_run io_defs)

lemma state_change_run:
  "handle_instance_state_change w event iid arn [] =
     (case state_change_fields event of
        Inl e \<Rightarrow> (Inl e, [])
      | Inr (event_instance_id, state) \<Rightarrow>
          if event_instance_id \<noteq> JStr iid then
            (Inr \<lparr>statusCode = 200, body = Plain [Lit ''Not our instance'']\<rparr>, [])
          else if state = JStr ''stopped'' \<or> state = JStr ''stopping'' then
            handle_stopped_instance w iid arn []
          else if state = JStr ''terminated'' \<or> state = JStr ''terminating'' then
            handle_terminated_instance w iid arn []
          else
            (Inr \<lparr>statusCode = 200, body = Plain [Lit ''No action needed'']\<rparr>, []))"
  by (simp add: handle_instance_state_change_def io_defs split: sum.splits)

lemma alarm_run:
  "handle_cloudwatch_alarm w event iid arn [] =
     (case alarm_fields event of
        Inl e \<Rightarrow> (Inl e, [])
      | Inr (alarm_name, state_value, state_reason) \<Rightarrow>
          if state_value = JStr ''ALARM'' then
            (case py_lower alarm_name of
               Inl e \<Rightarrow> (Inl e, [])
             | Inr lowered \<Rightarrow>
                 if substring_in ''health'' lowered \<or> substring_in ''status'' lowered then
                   handle_health_check_failure w iid alarm_name state_reason arn []
                 else
                   (Inr \<lparr>statusCode = 200,
                         body = JsonDumps [Lit ''Processed alarm: '', StrOf alarm_name]\<rparr>,
                    [Publish (Some arn) [Lit ''NAT Instance Alert: '', StrOf alarm_name]
                       (alarm_message w iid alarm_name state_value state_reason)]))
          else
            (Inr \<lparr>statusCode = 200,
                  body = JsonDumps [Lit ''Processed alarm: '', StrOf alarm_name]\<rparr>, []))"
  by (simp add: handle_cloudwatch_alarm_def send_alert_run io_defs split: sum.splits)

lemma route_run:
  "route w event iid arn [] =
     (case event of
        JObj kvs \<Rightarrow>
          if is_state_change event then handle_instance_state_change w event iid arn []
          else if is_alarm_event event then handle_cloudwatch_alarm w event iid arn []
          else (Inr \<lparr>statusCode = 200, body = JsonDumps [Lit ''Event type not handled'']\<rparr>, [])
      | _ \<Rightarrow> (Inl AttributeError, []))"
  by (simp add: route_def is_state_change_def is_alarm_event_def io_defs split: json.splits)

lemma handler_unset:
  assumes "\<not> (is_set (INSTANCE_ID ev) \<and> is_set (ROUTE_TABLE_ID ev) \<and> is_set (SNS_TOPIC_ARN ev))"
  shows "handler w ev event [] =
           (Inr \<lparr>statusCode = 500,
                 body = JsonDumps [Lit ''Error: '',
                          StrExn (ValueError ''Missing required environment variables'')]\<rparr>,
            [error_alert (SNS_TOPIC_ARN ev)
               (ValueError ''Missing required environment variables'')])"
  using assms by (simp add: handler_def Let_def handler_except_run io_try_def io_raise_def)

lemma handler_set:
  assumes "config_ok ev iid arn"
  shows "handler w ev event [] =
           (case route w event iid arn [] of
              (Inl e, t) \<Rightarrow>
                (Inr \<lparr>statusCode = 500, body = JsonDumps [Lit ''Error: '', StrExn e]\<rparr>,
                 t @ [error_alert (Some arn) e])
            | (Inr x, t) \<Rightarrow> (Inr x, t))"
  using assms
  by (simp add: handler_def Let_def config_ok_def is_set_def handler_except_run io_try_def
           split: sum.splits prod.splits)

lemma config_cases:
  "\<not> (is_set (INSTANCE_ID ev) \<and> is_set (ROUTE_TABLE_ID ev) \<and> is_set (SNS_TOPIC_ARN ev))
   \<or> (\<exists>iid arn. config_ok ev iid arn)"
  by (auto simp add: config_ok_def is_set_def split: option.splits)

lemma invoke_state_change:
  assumes "config_ok ev iid arn" "is_state_change event"
  shows "invoke w ev event =
           (case handle_instance_state_change w event iid arn [] of
              (Inl e, t) \<Rightarrow>
                (Inr \<lparr>statusCode = 500, body = JsonDumps [Lit ''Error: '', StrExn e]\<rparr>,
                 t @ [error_alert (Some arn) e])
            | (Inr x, t) \<Rightarrow> (Inr x, t))"
proof -
  obtain kvs where "event = JObj kvs"
    using assms(2) dict_get_obj unfolding is_state_change_def by blast
  then show ?thesis
    using assms(2) by (simp add: invoke_def handler_set [OF assms(1)] route_run)
qed


section \<open>Failed start and reboot calls\<close>

lemma failed_actions_append:
  "failed_actions w h (t @ [c]) =
     failed_actions w h t @
       (if is_start c \<or> is_reboot c
        then (case aws w (h @ t) c of Inl e \<Rightarrow> [e] | Inr r \<Rightarrow> [])
        else [])"
  by (induction t arbitrary: h) simp_all

lemma stopped_failed:
  assumes "e \<in> set (failed_actions w [] (snd (handle_stopped_instance w iid arn [])))"
  shows "handle_stopped_instance w iid arn [] =
           (Inl e, [DescribeInstances [iid], StartInstances [iid], restart_failed_alert iid arn e])"
proof (cases "aws w [] (DescribeInstances [iid])")
  case (Inl x)
  then show ?thesis using assms by (simp add: stopped_run restart_failed_alert_def)
next
  case response: (Inr response)
  show ?thesis
  proof (cases "current_state_of response")
    case (Inl x)
    then show ?thesis using assms response by (simp add: stopped_run restart_failed_alert_def)
  next
    case state: (Inr current_state)
    show ?thesis
    proof (cases "current_state = JStr ''stopped''")
      case False
      then show ?thesis using assms response state by (simp add: stopped_run)
    next
      case True
      then show ?thesis using assms response state
        by (cases "aws w [DescribeInstances [iid]] (StartInstances [iid])")
           (simp_all add: stopped_run restart_failed_alert_def)
    qed
  qed
qed

lemma health_failed:
  assumes "e \<in> set (failed_actions w [] (snd (handle_health_check_failure w iid an r arn [])))"
  shows "handle_health_check_failure w iid an r arn [] =
           (Inl e, [DescribeInstanceStatus [iid], RebootInstances [iid],
                    health_failed_alert iid arn e])"
proof (cases "aws w [] (DescribeInstanceStatus [iid])")
  case (Inl x)
  then show ?thesis using assms by (simp add: health_run health_failed_alert_def)
next
  case response: (Inr response)
  show ?thesis
  proof (cases "subscript_key response ''InstanceStatuses''")
    case (Inl x)
    then show ?thesis using assms response by (simp add: health_run health_failed_alert_def)
  next
    case statuses: (Inr statuses)
    show ?thesis
    proof (cases "truthy statuses")
      case False
      then show ?thesis using assms response statuses by (simp add: health_run)
    next
      case True
      show ?thesis
      proof (cases "status_checks_of statuses")
        case (Inl x)
        then show ?thesis using assms response statuses True
          by (simp add: health_run health_failed_alert_def)
      next
        case checks: (Inr p)
        obtain instance_status system_status where p: "p = (instance_status, system_status)"
          by (cases p)
        show ?thesis
        proof (cases "instance_status \<noteq> JStr ''ok'' \<or> system_status \<noteq> JStr ''ok''")
          case False
          then show ?thesis using assms response statuses True checks p
            by (simp add: health_run)
        next
          case unhealthy: True
          then show ?thesis using assms response statuses True checks p
            by (cases "aws w [DescribeInstanceStatus [iid]] (RebootInstances [iid])")
               (auto simp add: health_run health_failed_alert_def)
        qed
      qed
    qed
  qed
qed

lemma state_change_failed:
  assumes "e \<in> set (failed_actions w [] (snd (handle_instance_state_change w event iid arn [])))"
  shows "handle_instance_state_change w event iid arn [] =
           (Inl e, [DescribeInstances [iid], StartInstances [iid], restart_failed_alert iid arn e])"
proof (cases "state_change_fields event")
  case (Inl x)
  then show ?thesis using assms by (simp add: state_change_run)
next
  case fields: (Inr p)
  obtain event_instance_id state where p: "p = (event_instance_id, state)"
    by (cases p)
  show ?thesis
  proof (cases "event_instance_id \<noteq> JStr iid")
    case True
    then show ?thesis using assms fields p by (simp add: state_change_run)
  next
    case ours: False
    show ?thesis
    proof (cases "state = JStr ''stopped'' \<or> state = JStr ''stopping''")
      case True
      then have "handle_instance_state_change w event iid arn [] = handle_stopped_instance w iid arn []"
        using fields p ours by (simp add: state_change_run)
      then show ?thesis using assms stopped_failed by simp
    next
      case False
      then show ?thesis using assms fields p ours
        by (cases "state = JStr ''terminated'' \<or> state = JStr ''terminating''")
           (simp_all add: state_change_run terminated_run)
    qed
  qed
qed

lemma alarm_failed:
  assumes "e \<in> set (failed_actions w [] (snd (handle_cloudwatch_alarm w event iid arn [])))"
  shows "handle_cloudwatch_alarm w event iid arn [] =
           (Inl e, [DescribeInstanceStatus [iid], RebootInstances [iid],
                    health_failed_alert iid arn e])"
proof (cases "alarm_fields event")
  case (Inl x)
  then show ?thesis using assms by (simp add: alarm_run)
next
  case fields: (Inr p)
  obtain alarm_name state_value state_reason where p: "p = (alarm_name, state_value, state_reason)"
    by (cases p)
  show ?thesis
  proof (cases "state_value = JStr ''ALARM''")
    case False
    then show ?thesis using assms fields p by (simp add: alarm_run)
  next
    case alarm: True
    show ?thesis
    proof (cases "py_lower alarm_name")
      case (Inl x)
      then show ?thesis using assms fields p alarm by (simp add: alarm_run)
    next
      case lowered: (Inr lowered)
      show ?thesis
      proof (cases "substring_in ''health'' lowered \<or> substring_in ''status'' lowered")
        case True
        then have "handle_cloudwatch_alarm w event iid arn [] =
                     handle_health_check_failure w iid alarm_name state_reason arn []"
          using fields p alarm lowered by (simp add: alarm_run)
        then show ?thesis using assms health_failed by simp
      next
        case False
        then show ?thesis using assms fields p alarm lowered by (simp add: alarm_run)
      qed
    qed
  qed
qed

lemma route_failed:
  assumes "e \<in> set (failed_actions w [] (snd (route w event iid arn [])))"
  shows "route w event iid arn [] =
           (Inl e, [DescribeInstances [iid], StartInstances [iid], restart_failed_alert iid arn e])
       \<or> route w event iid arn [] =
           (Inl e, [DescribeInstanceStatus [iid], RebootInstances [iid],
                    health_failed_alert iid arn e])"
proof (cases "\<exists>kvs. event = JObj kvs")
  case False
  then show ?thesis using assms by (cases event) (simp_all add: route_run)
next
  case True
  then obtain kvs where kvs: "event = JObj kvs" by blast
  have r: "route w event iid arn [] =
     (if is_state_change event then handle_instance_state_change w event iid arn []
      else if is_alarm_event event then handle_cloudwatch_alarm w event iid arn []
      else (Inr \<lparr>statusCode = 200, body = JsonDumps [Lit ''Event type not handled'']\<rparr>, []))"
    unfolding kvs by (simp add: route_run)
  show ?thesis
  proof (cases "is_state_change event")
    case True
    then show ?thesis using assms r state_change_failed by simp
  next
    case False
    show ?thesis
    proof (cases "is_alarm_event event")
      case True
      then show ?thesis using assms r False alarm_failed by simp
    next
      case na: False
      then show ?thesis using assms r False by simp
    qed
  qed
qed

section \<open>Independence of the outcome of the publish calls\<close>

lemma stopped_indep:
  assumes "\<forall>h c. \<not> is_publish c \<longrightarrow> aws w1 h c = aws w2 h c" "utcnow w1 = utcnow w2"
  shows "handle_stopped_instance w1 iid arn [] = handle_stopped_instance w2 iid arn []"
proof -
  have a: "aws w1 [] (DescribeInstances [iid]) = aws w2 [] (DescribeInstances [iid])"
    using assms(1) by simp
  have b: "aws w1 [DescribeInstances [iid]] (StartInstances [iid])
           = aws w2 [DescribeInstances [iid]] (StartInstances [iid])"
    using assms(1) by simp
  have c: "restarted_message w1 iid = restarted_message w2 iid"
    using assms(2) by (simp add: restarted_message_def)
  show ?thesis
    unfolding stopped_run a b c by (rule refl)
qed

lemma health_indep:
  assumes "\<forall>h c. \<not> is_publish c \<longrightarrow> aws w1 h c = aws w2 h c" "utcnow w1 = utcnow w2"
  shows "handle_health_check_failure w1 iid an r arn [] = handle_health_check_failure w2 iid an r arn []"
proof -
  have a: "aws w1 [] (DescribeInstanceStatus [iid]) = aws w2 [] (DescribeInstanceStatus [iid])"
    using assms(1) by simp
  have b: "aws w1 [DescribeInstanceStatus [iid]] (RebootInstances [iid])
           = aws w2 [DescribeInstanceStatus [iid]] (RebootInstances [iid])"
    using assms(1) by simp
  have c: "rebooted_message w1 iid an r = rebooted_message w2 iid an r"
    using assms(2) by (simp add: rebooted_message_def)
  show ?thesis
    unfolding health_run a b c by (rule refl)
qed

lemma state_change_indep:
  assumes "\<forall>h c. \<not> is_publish c \<longrightarrow> aws w1 h c = aws w2 h c" "utcnow w1 = utcnow w2"
  shows "handle_instance_state_change w1 event iid arn []
         = handle_instance_state_change w2 event iid arn []"
proof -
  have c: "terminated_message w1 iid = terminated_message w2 iid"
    using assms(2) by (simp add: terminated_message_def)
  show ?thesis
    unfolding state_change_run terminated_run stopped_indep [OF assms] c by (rule refl)
qed

lemma alarm_indep:
  assumes "\<forall>h c. \<not> is_publish c \<longrightarrow> aws w1 h c = aws w2 h c" "utcnow w1 = utcnow w2"
  shows "handle_cloudwatch_alarm w1 event iid arn [] = handle_cloudwatch_alarm w2 event iid arn []"
proof -
  have c: "alarm_message w1 iid = alarm_message w2 iid"
    using assms(2) by (simp add: alarm_message_def fun_eq_iff)
  show ?thesis
    unfolding alarm_run health_indep [OF assms] c by (rule refl)
qed

lemma handler_indep:
  assumes "\<forall>h c. \<not> is_publish c \<longrightarrow> aws w1 h c = aws w2 h c" "utcnow w1 = utcnow w2"
  shows "handler w1 ev event [] = handler w2 ev event []"
proof (cases "is_set (INSTANCE_ID ev) \<and> is_set (ROUTE_TABLE_ID ev) \<and> is_set (SNS_TOPIC_ARN ev)")
  case False
  show ?thesis
    unfolding handler_unset [OF False] by (rule refl)
next
  case True
  then obtain iid arn where ok: "config_ok ev iid arn"
    using config_cases [of ev] by blast
  have "route w1 event iid arn [] = route w2 event iid arn []"
    unfolding route_run state_change_indep [OF assms] alarm_indep [OF assms] by (rule refl)
  then show ?thesis
    unfolding handler_set [OF ok] by simp
qed

section \<open>Alarm events with missing fields\<close>



section \<open>Facts about the concrete inputs\<close>

lemma test_config: "config_ok test_env test_instance test_topic"
  by (simp add: config_ok_def test_env_def test_instance_def test_topic_def is_set_def)

lemma state_event_kind: "is_state_change (state_change_event i s)"
  by (simp add: is_state_change_def state_change_event_def)

lemma state_event_fields:
  "state_change_fields (state_change_event i s) = Inr (JStr i, JStr s)"
  by (simp add: state_change_fields_def state_change_event_def exn_bind_def)



lemma world_of_probe:
  "aws (world_of d s a p) h (DescribeInstances ids) = Inr d"
  "aws (world_of d s a p) h (DescribeInstanceStatus ids) = Inr s"
  by (simp_all add: world_of_def)

lemma world_of_action:
  "aws (world_of d s a p) h (StartInstances ids) =
     (if a then Inr (JObj []) else Inl (BotoError ''start refused''))"
  "aws (world_of d s a p) h (RebootInstances ids) =
     (if a then Inr (JObj []) else Inl (BotoError ''reboot refused''))"
  by (simp_all add: world_of_def)

lemma describe_state: "current_state_of (describe_response s) = Inr (JStr s)"
  by (simp add: current_state_of_def describe_response_def exn_bind_def)





section \<open>The claims\<close>

subsection \<open>C1: a stopped instance is started only when the live state is stopped\<close>



subsection \<open>C2: the health-check recovery path\<close>



subsection \<open>C3: alarm events\<close>



subsection \<open>C4: incomplete configuration\<close>



subsection \<open>C6: a terminated instance\<close>



subsection \<open>C7: events for another instance\<close>



subsection \<open>C10: a probe without reservations or instances on the stopped path\<close>



subsection \<open>C5: a failed start or reboot call is reported twice\<close>

text \<open>
  Claim C5. Take any invocation in which a start or a reboot call was issued and the
  world answered it with an exception \<open>e\<close>. Then the configuration was complete; the
  dispatched handler published its own failure alert, which names \<open>e\<close>, and raised \<open>e\<close>
  again; the handler caught \<open>e\<close>, published the general error alert and returned status
  500 with \<open>e\<close> in the body. So the invocation returns a result and does not raise, and it
  issued exactly two publish calls: the failure alert, then the general alert.
\<close>

theorem C5_double_alert:
  assumes "e \<in> set (failed_actions w [] (snd (invoke w ev event)))"
  shows "\<exists>iid arn alert.
           INSTANCE_ID ev = Some iid \<and> SNS_TOPIC_ARN ev = Some arn
           \<and> (alert = restart_failed_alert iid arn e \<or> alert = health_failed_alert iid arn e)
           \<and> fst (route w event iid arn []) = Inl e
           \<and> filter is_publish (snd (route w event iid arn [])) = [alert]
           \<and> fst (invoke w ev event) =
               Inr \<lparr>statusCode = 500, body = JsonDumps [Lit ''Error: '', StrExn e]\<rparr>
           \<and> filter is_publish (snd (invoke w ev event)) = [alert, error_alert (Some arn) e]
           \<and> count_calls is_publish (snd (invoke w ev event)) = 2"
proof -
  have set: "is_set (INSTANCE_ID ev) \<and> is_set (ROUTE_TABLE_ID ev) \<and> is_set (SNS_TOPIC_ARN ev)"
  proof (rule ccontr)
    assume unset: "\<not> ?thesis"
    show False
      using assms by (simp add: invoke_def handler_unset [OF unset] error_alert_def)
  qed
  then obtain iid arn where ok: "config_ok ev iid arn"
    using config_cases [of ev] by blast
  obtain r t where rt: "route w event iid arn [] = (r, t)"
    by (cases "route w event iid arn []")
  have inv: "invoke w ev event =
           (case r of
              Inl x \<Rightarrow>
                (Inr \<lparr>statusCode = 500, body = JsonDumps [Lit ''Error: '', StrExn x]\<rparr>,
                 t @ [error_alert (Some arn) x])
            | Inr x \<Rightarrow> (Inr x, t))"
    by (simp add: invoke_def handler_set [OF ok] rt split: sum.splits)
  have "e \<in> set (failed_actions w [] t)"
    using assms unfolding inv
    by (cases r) (simp_all add: failed_actions_append error_alert_def)
  then have "e \<in> set (failed_actions w [] (snd (route w event iid arn [])))"
    by (simp add: rt)
  from route_failed [OF this]
  have "(r, t) = (Inl e, [DescribeInstances [iid], StartInstances [iid],
                           restart_failed_alert iid arn e])
      \<or> (r, t) = (Inl e, [DescribeInstanceStatus [iid], RebootInstances [iid],
                           health_failed_alert iid arn e])"
    by (simp add: rt)
  then show ?thesis
  proof
    assume a: "(r, t) = (Inl e, [DescribeInstances [iid], StartInstances [iid],
                           restart_failed_alert iid arn e])"
    then have "invoke w ev event =
        (Inr \<lparr>statusCode = 500, body = JsonDumps [Lit ''Error: '', StrExn e]\<rparr>,
         [DescribeInstances [iid], StartInstances [iid], restart_failed_alert iid arn e,
          error_alert (Some arn) e])"
      by (simp add: inv)
    then show ?thesis
      using ok rt a by (simp add: config_ok_def count_calls_def restart_failed_alert_def
            health_failed_alert_def error_alert_def)
  next
    assume a: "(r, t) = (Inl e, [DescribeInstanceStatus [iid], RebootInstances [iid],
                           health_failed_alert iid arn e])"
    then have "invoke w ev event =
        (Inr \<lparr>statusCode = 500, body = JsonDumps [Lit ''Error: '', StrExn e]\<rparr>,
         [DescribeInstanceStatus [iid], RebootInstances [iid], health_failed_alert iid arn e,
          error_alert (Some arn) e])"
      by (simp add: inv)
    then show ?thesis
      using ok rt a by (simp add: config_ok_def count_calls_def restart_failed_alert_def
            health_failed_alert_def error_alert_def)
  qed
qed

text \<open>The test event of the source file, in a world that refuses the start call.\<close>

theorem C5_double_alert_witness:
  "BotoError ''start refused''
     \<in> set (failed_actions
              (world_of (describe_response ''stopped'') no_status_response False True) []
              (snd (invoke (world_of (describe_response ''stopped'') no_status_response False True)
                      test_env (state_change_event test_instance ''stopped''))))
   \<and> (\<exists>iid arn alert.
           INSTANCE_ID test_env = Some iid \<and> SNS_TOPIC_ARN test_env = Some arn
           \<and> (alert = restart_failed_alert iid arn (BotoError ''start refused'')
               \<or> alert = health_failed_alert iid arn (BotoError ''start refused''))
           \<and> fst (route (world_of (describe_response ''stopped'') no_status_response False True)
                    (state_change_event test_instance ''stopped'') iid arn [])
               = Inl (BotoError ''start refused'')
           \<and> filter is_publish
                (snd (route (world_of (describe_response ''stopped'') no_status_response False True)
                        (state_change_event test_instance ''stopped'') iid arn [])) = [alert]
           \<and> fst (invoke (world_of (describe_response ''stopped'') no_status_response False True)
                    test_env (state_change_event test_instance ''stopped'')) =
               Inr \<lparr>statusCode = 500,
                     body = JsonDumps [Lit ''Error: '', StrExn (BotoError ''start refused'')]\<rparr>
           \<and> filter is_publish
                (snd (invoke (world_of (describe_response ''stopped'') no_status_response False True)
                        test_env (state_change_event test_instance ''stopped'')))
               = [alert, error_alert (Some arn) (BotoError ''start refused'')]
           \<and> count_calls is_publish
                (snd (invoke (world_of (describe_response ''stopped'') no_status_response False True)
                        test_env (state_change_event test_instance ''stopped''))) = 2)"
proof -
  have inv: "invoke (world_of (describe_response ''stopped'') no_status_response False True)
        test_env (state_change_event test_instance ''stopped'') =
      (Inr \<lparr>statusCode = 500,
            body = JsonDumps [Lit ''Error: '', StrExn (BotoError ''start refused'')]\<rparr>,
       [DescribeInstances [test_instance], StartInstances [test_instance],
        restart_failed_alert test_instance test_topic (BotoError ''start refused''),
        error_alert (Some test_topic) (BotoError ''start refused'')])"
    by (simp add: invoke_state_change [OF test_config state_event_kind] state_change_run
          state_event_fields stopped_run world_of_probe world_of_action describe_state)
  have mem: "BotoError ''start refused''
     \<in> set (failed_actions
              (world_of (describe_response ''stopped'') no_status_response False True) []
              (snd (invoke (world_of (describe_response ''stopped'') no_status_response False True)
                      test_env (state_change_event test_instance ''stopped''))))"
    by (simp add: inv world_of_action restart_failed_alert_def error_alert_def)
  show ?thesis
    by (rule conjI [OF mem C5_double_alert [OF mem]])
qed

subsection \<open>C8: the outcome of the publish calls changes nothing\<close>

text \<open>
  Claim C8. \<open>send_alert\<close> never raises: whatever the world answers to the publish call,
  it returns normally, having issued that one call. And when two worlds give the same
  answers to every call that is not a publish call, and the same time, then for every
  environment and event the two invocations return the same result (status code and
  body) and issue the same calls.
\<close>

theorem C8_notifier_isolated:
  assumes "\<forall>h c. \<not> is_publish c \<longrightarrow> aws w1 h c = aws w2 h c" "utcnow w1 = utcnow w2"
  shows "send_alert w arn subject message t = (Inr (), t @ [Publish arn subject message])
       \<and> invoke w1 ev event = invoke w2 ev event"
  by (simp add: invoke_def handler_indep [OF assms] send_alert_run)

text \<open>The test event of the source file, in a world where every publish call succeeds
  and in one where every publish call fails; the two worlds answer every other call
  alike.\<close>

theorem C8_notifier_isolated_witness:
  "utcnow (world_of (describe_response ''stopped'') no_status_response True True)
       = utcnow (world_of (describe_response ''stopped'') no_status_response True False)
   \<and> aws (world_of (describe_response ''stopped'') no_status_response True True) []
         (Publish None [] [])
       \<noteq> aws (world_of (describe_response ''stopped'') no_status_response True False) []
         (Publish None [] [])
   \<and> invoke (world_of (describe_response ''stopped'') no_status_response True True)
        test_env (state_change_event test_instance ''stopped'')
       = invoke (world_of (describe_response ''stopped'') no_status_response True False)
        test_env (state_change_event test_instance ''stopped'')"
proof -
  have h1: "\<forall>h c. \<not> is_publish c \<longrightarrow>
       aws (world_of (describe_response ''stopped'') no_status_response True True) h c
       = aws (world_of (describe_response ''stopped'') no_status_response True False) h c"
    by (auto simp add: world_of_def split: call.splits)
  have h2: "utcnow (world_of (describe_response ''stopped'') no_status_response True True)
       = utcnow (world_of (describe_response ''stopped'') no_status_response True False)"
    by (simp add: world_of_def)
  have h3: "aws (world_of (describe_response ''stopped'') no_status_response True True) []
         (Publish None [] [])
       \<noteq> aws (world_of (describe_response ''stopped'') no_status_response True False) []
         (Publish None [] [])"
    by (simp add: world_of_def)
  have "invoke (world_of (describe_response ''stopped'') no_status_response True True)
        test_env (state_change_event test_instance ''stopped'')
       = invoke (world_of (describe_response ''stopped'') no_status_response True False)
        test_env (state_change_event test_instance ''stopped'')"
    using C8_notifier_isolated [OF h1 h2] by simp
  then show ?thesis
    using h2 h3 by simp
qed

subsection \<open>C9: alarm events with missing fields\<close>




end
